theory Spec2Isabelle
  imports Complex_Main "HOL-Library.Word"
begin

unbundle bit_operations_syntax

section \<open>Values exchanged with the host environment\<close>

text \<open>
  The embedding follows \<^verbatim>\<open>src/gameobjects/BitmapData.js\<close>. The object \<^verbatim>\<open>this\<close> is a record
  that every method takes as its last argument and returns updated, next to the value the
  JavaScript method returns. The canvas, its 2d context, PIXI and the sprites are not part
  of the file: the model records what the file does to them (the calls it issues, in
  order) and takes what they hand back as an argument.

  Numbers forwarded to the drawing context are \<open>real\<close>: they are passed on verbatim, and
  only \<^verbatim>\<open>ellipse\<close> computes with them; \<open>pi\<close> stands for \<^verbatim>\<open>Math.PI\<close>. Pixel coordinates, dimensions and colour channels are
  integers (\<open>int\<close>); the bit operations of \<^verbatim>\<open>setPixel32\<close> apply ToInt32 to them, which on
  integers is reduction modulo \<open>2 ^ 32\<close>, so a packed pixel is a \<open>32 word\<close>, read back as the
  signed number \<open>sint\<close>.
\<close>

type_synonym number = real
type_synonym int32 = "32 word"

datatype error = TypeError | IndexSizeError | SyntaxError

datatype gradient =
    LinearGradient number number number number "(number option \<times> string) list"
  | RadialGradient number number number number number number "(number option \<times> string) list"

datatype style = Color string | Gradient gradient | Null

text \<open>What a method returns: \<^verbatim>\<open>this\<close>, nothing (\<^verbatim>\<open>undefined\<close>), or a value.\<close>

datatype ret =
    This
  | Undefined
  | Number int
  | GradientObject gradient
  | ImageData "int32 list"

text \<open>The calls and property assignments the file issues on \<^verbatim>\<open>this.context\<close>.\<close>

datatype ctx_cmd =
    Ctx_getImageData number number number number
  | Ctx_putImageData "int32 list" number number
  | Ctx_arc number number number number number bool
  | Ctx_arcTo number number number number number
  | Ctx_beginPath
  | Ctx_bezierCurveTo number number number number number number
  | Ctx_clearRect number number number number
  | Ctx_clip
  | Ctx_closePath
  | Ctx_createLinearGradient number number number number
  | Ctx_createRadialGradient number number number number number number
  | Ctx_fill
  | Ctx_fillRect number number number number
  | Ctx_set_fillStyle style
  | Ctx_set_font string
  | Ctx_set_globalAlpha number
  | Ctx_set_globalCompositeOperation string
  | Ctx_set_lineCap string
  | Ctx_set_lineDashOffset number
  | Ctx_set_lineJoin string
  | Ctx_set_lineWidth number
  | Ctx_set_miterLimit number
  | Ctx_lineTo number number
  | Ctx_moveTo number number
  | Ctx_quadraticCurveTo number number number number
  | Ctx_rect number number number number
  | Ctx_restore
  | Ctx_rotate number
  | Ctx_save
  | Ctx_scale number number
  | Ctx_scrollPathIntoView
  | Ctx_stroke
  | Ctx_strokeRect number number number number
  | Ctx_set_strokeStyle style

text \<open>
  What \<^verbatim>\<open>this.pixels\<close> refers to. The constructor stores \<^verbatim>\<open>imageData.data.buffer\<close> when the
  host's pixel array has one (an ArrayBuffer, which has no indexed elements: an indexed
  assignment creates an own property, kept in the map) and \<^verbatim>\<open>imageData.data\<close> itself
  otherwise (a clamped byte array). \<^verbatim>\<open>refreshBuffer\<close> stores
  \<^verbatim>\<open>new Int32Array(imageData.data.buffer)\<close>: a view of the storage of \<^verbatim>\<open>imageData\<close> with one
  element per pixel, or an array of length 0 when the buffer is \<^verbatim>\<open>undefined\<close>.
  The storage itself is the field \<open>imageData\<close>, one 32-bit word per pixel, least
  significant byte first.
\<close>

datatype pixels_ref =
    ArrayBuffer "int \<rightharpoonup> int"
  | Uint8ClampedArray
  | Int32Array
  | Int32Array_empty

record game_ref =
  renderType :: int
  rnd_uuid :: string

record canvas_ref =
  canvas_width :: int
  canvas_height :: int

record frame =
  frame_index :: int
  frame_x :: int
  frame_y :: int
  frame_width :: int
  frame_height :: int
  frame_name :: string
  frame_uuid :: string

text \<open>
  The host: whether \<^verbatim>\<open>imageData.data.buffer\<close> is truthy, the constants \<^verbatim>\<open>Phaser.WEBGL\<close> and
  \<^verbatim>\<open>Phaser.BITMAPDATA\<close>, which are defined outside the file, whether the 2d context has a
  method \<^verbatim>\<open>scrollPathIntoView\<close> (the standard context has none), and which strings the
  host parses as a CSS colour.
\<close>

record env =
  data_has_buffer :: bool
  WEBGL :: int
  BITMAPDATA :: int
  has_scrollPathIntoView :: bool
  parses_color :: "string \<Rightarrow> bool"

section \<open>The BitmapData object\<close>

text \<open>
  The fields keep the names of the members, except \<open>ctx\<close> for \<^verbatim>\<open>this.context\<close>, \<open>btype\<close> for
  \<^verbatim>\<open>this.type\<close> and \<open>dirty\<close> for \<^verbatim>\<open>this._dirty\<close>; the canvas and the textures built on it are
  represented by the size of the canvas.

  \<open>data32\<close> is the member \<^verbatim>\<open>this.data32\<close> that \<^verbatim>\<open>getPixel\<close> and \<^verbatim>\<open>getPixel32\<close> read. No
  statement of the file assigns it (the assignment in \<^verbatim>\<open>refreshBuffer\<close> is commented out),
  so it is \<open>None\<close>, that is \<^verbatim>\<open>undefined\<close>, in every object the file builds.
\<close>

record bitmapData =
  game :: game_ref
  name :: string
  width :: int
  height :: int
  canvas :: canvas_ref
  ctx :: "ctx_cmd list"
  imageData :: "int32 list"
  pixels :: pixels_ref
  data32 :: "int32 list option"
  baseTexture :: canvas_ref
  texture :: canvas_ref
  textureFrame :: frame
  btype :: int
  dirty :: bool

definition BitmapData :: "env \<Rightarrow> game_ref \<Rightarrow> int option \<Rightarrow> int option \<Rightarrow> bitmapData" where
  "BitmapData E g width_arg height_arg =
    (let w = (case width_arg of None \<Rightarrow> 256 | Some v \<Rightarrow> v);
         h = (case height_arg of None \<Rightarrow> 256 | Some v \<Rightarrow> v);
         cv = \<lparr>canvas_width = w, canvas_height = h\<rparr>
     in \<lparr>game = g,
         name = '''',
         width = w,
         height = h,
         canvas = cv,
         ctx = [Ctx_getImageData 0 0 (of_int w) (of_int h)],
         imageData = replicate (nat (w * h)) 0,
         pixels = (if data_has_buffer E then ArrayBuffer Map.empty else Uint8ClampedArray),
         data32 = None,
         baseTexture = cv,
         texture = cv,
         textureFrame = \<lparr>frame_index = 0, frame_x = 0, frame_y = 0, frame_width = w,
           frame_height = h, frame_name = ''bitmapData'', frame_uuid = rnd_uuid g\<rparr>,
         btype = BITMAPDATA E,
         dirty = False\<rparr>)"

section \<open>Pixel access\<close>

text \<open>
  The guard \<^verbatim>\<open>x >= 0 && x <= this.width && y >= 0 && y <= this.height\<close> and the index
  \<^verbatim>\<open>y * this.width + x\<close>, written out identically in \<^verbatim>\<open>setPixel32\<close>, \<^verbatim>\<open>getPixel\<close> and
  \<^verbatim>\<open>getPixel32\<close>.
\<close>

definition boundsCheck :: "bitmapData \<Rightarrow> int \<Rightarrow> int \<Rightarrow> bool" where
  "boundsCheck s x y = (x \<ge> 0 \<and> x \<le> width s \<and> y \<ge> 0 \<and> y \<le> height s)"

definition pixelIndex :: "bitmapData \<Rightarrow> int \<Rightarrow> int \<Rightarrow> int" where
  "pixelIndex s x y = y * width s + x"

text \<open>The value \<^verbatim>\<open>(alpha << 24) | (blue << 16) | (green << 8) | red\<close>.\<close>

definition pack32 :: "int \<Rightarrow> int \<Rightarrow> int \<Rightarrow> int \<Rightarrow> int32" where
  "pack32 red green blue alpha =
    (((push_bit 24 (word_of_int alpha) OR push_bit 16 (word_of_int blue))
       OR push_bit 8 (word_of_int green)) OR word_of_int red)"

text \<open>
  The indexed assignment \<^verbatim>\<open>this.pixels[i] = v\<close> for each kind of \<^verbatim>\<open>this.pixels\<close>. A typed
  array drops a write outside its length; a clamped byte array stores the number clamped
  to \<open>0..255\<close> in the byte \<open>i\<close>, which is byte \<open>i mod 4\<close> of the word \<open>i div 4\<close>.
\<close>

definition clamp8 :: "int \<Rightarrow> int32" where
  "clamp8 n = (if n < 0 then 0 else if n > 255 then 255 else word_of_int n)"

definition set_byte :: "int32 \<Rightarrow> nat \<Rightarrow> int32 \<Rightarrow> int32" where
  "set_byte w k b = ((w AND NOT (push_bit (8 * k) 255)) OR push_bit (8 * k) b)"

definition assign_index :: "pixels_ref \<Rightarrow> int32 list \<Rightarrow> int \<Rightarrow> int32 \<Rightarrow> pixels_ref \<times> int32 list" where
  "assign_index p img i v =
    (case p of
       ArrayBuffer props \<Rightarrow> (ArrayBuffer (props(i \<mapsto> sint v)), img)
     | Uint8ClampedArray \<Rightarrow>
         (p, if 0 \<le> i \<and> i < 4 * int (length img)
             then img[nat (i div 4) := set_byte (img ! nat (i div 4)) (nat (i mod 4)) (clamp8 (sint v))]
             else img)
     | Int32Array \<Rightarrow> (p, if 0 \<le> i \<and> i < int (length img) then img[nat i := v] else img)
     | Int32Array_empty \<Rightarrow> (p, img))"

definition setPixel32 :: "int \<Rightarrow> int \<Rightarrow> int \<Rightarrow> int \<Rightarrow> int \<Rightarrow> int \<Rightarrow> bitmapData \<Rightarrow> ret \<times> bitmapData" where
  "setPixel32 x y red green blue alpha s =
    (if boundsCheck s x y
     then (let (p, img) = assign_index (pixels s) (imageData s) (pixelIndex s x y)
                            (pack32 red green blue alpha)
           in (Undefined, s\<lparr>ctx := ctx s @ [Ctx_putImageData img 0 0],
                             imageData := img, pixels := p, dirty := True\<rparr>))
     else (Undefined, s))"

definition setPixel :: "int \<Rightarrow> int \<Rightarrow> int \<Rightarrow> int \<Rightarrow> int \<Rightarrow> bitmapData \<Rightarrow> ret \<times> bitmapData" where
  "setPixel x y red green blue s = (Undefined, snd (setPixel32 x y red green blue 255 s))"

text \<open>
  The member read \<^verbatim>\<open>this.data32[i]\<close>: a TypeError when \<^verbatim>\<open>this.data32\<close> is \<^verbatim>\<open>undefined\<close>,
  the element or \<^verbatim>\<open>undefined\<close> when it is an array.
\<close>

definition read_data32 :: "int32 list option \<Rightarrow> int \<Rightarrow> error + ret" where
  "read_data32 d i =
    (case d of
       None \<Rightarrow> Inl TypeError
     | Some a \<Rightarrow> Inr (if 0 \<le> i \<and> i < int (length a) then Number (uint (a ! nat i)) else Undefined))"

definition getPixel :: "int \<Rightarrow> int \<Rightarrow> bitmapData \<Rightarrow> error + ret" where
  "getPixel x y s =
    (if boundsCheck s x y then read_data32 (data32 s) (pixelIndex s x y) else Inr Undefined)"

definition getPixel32 :: "int \<Rightarrow> int \<Rightarrow> bitmapData \<Rightarrow> error + ret" where
  "getPixel32 x y s =
    (if boundsCheck s x y then read_data32 (data32 s) (pixelIndex s x y) else Inr Undefined)"

definition refreshBuffer :: "env \<Rightarrow> int32 list \<Rightarrow> bitmapData \<Rightarrow> ret \<times> bitmapData" where
  "refreshBuffer E fetched s =
    (Undefined,
     s\<lparr>ctx := ctx s @ [Ctx_getImageData 0 0 (of_int (width s)) (of_int (height s))],
       imageData := fetched,
       pixels := (if data_has_buffer E then Int32Array else Int32Array_empty)\<rparr>)"

section \<open>The drawing facade\<close>

text \<open>
  A call or a property assignment on \<^verbatim>\<open>this.context\<close> is appended to the record of calls.
  The methods \<^verbatim>\<open>rotate\<close> and \<^verbatim>\<open>scale\<close> are \<open>rotate_ctx\<close> and \<open>scale_ctx\<close> here. The one-letter
  aliases at the end of the file (\<^verbatim>\<open>mt\<close>, \<^verbatim>\<open>lt\<close>, ...) are the same functions under other names.
\<close>

definition emit :: "ctx_cmd \<Rightarrow> bitmapData \<Rightarrow> bitmapData" where
  "emit c s = s\<lparr>ctx := ctx s @ [c]\<rparr>"

text \<open>
  Calls that the context answers by throwing, among those the chainable methods make with
  finite numbers: \<^verbatim>\<open>arc\<close> and \<^verbatim>\<open>arcTo\<close> with a negative radius and \<^verbatim>\<open>createRadialGradient\<close> with
  a negative radius throw an IndexSizeError, and calling \<^verbatim>\<open>scrollPathIntoView\<close> on a context
  that has no such method throws a TypeError. The other calls of the facade (path
  construction, painting, transform, state stack) and the property assignments return
  normally. \<^verbatim>\<open>getImageData\<close> and the sprites' \<^verbatim>\<open>loadTexture\<close> are taken to return.

  \<open>invoke\<close> is a method's last two steps, the call on the context and the \<^verbatim>\<open>return\<close> after
  it: the call is recorded, and either its exception leaves the method or the method
  returns its value.
\<close>

definition ctx_throws :: "env \<Rightarrow> ctx_cmd \<Rightarrow> error option" where
  "ctx_throws E c =
    (case c of
       Ctx_arc x y radius sa ea ac \<Rightarrow> (if radius < 0 then Some IndexSizeError else None)
     | Ctx_arcTo x1 y1 x2 y2 radius \<Rightarrow> (if radius < 0 then Some IndexSizeError else None)
     | Ctx_createRadialGradient x0 y0 r0 x1 y1 r1 \<Rightarrow>
         (if r0 < 0 \<or> r1 < 0 then Some IndexSizeError else None)
     | Ctx_scrollPathIntoView \<Rightarrow> (if has_scrollPathIntoView E then None else Some TypeError)
     | _ \<Rightarrow> None)"

definition invoke :: "env \<Rightarrow> ctx_cmd \<Rightarrow> ret \<Rightarrow> bitmapData \<Rightarrow> (error + ret) \<times> bitmapData" where
  "invoke E c r s =
    (case ctx_throws E c of
       Some e \<Rightarrow> (Inl e, emit c s)
     | None \<Rightarrow> (Inr r, emit c s))"

definition clear :: "bitmapData \<Rightarrow> ret \<times> bitmapData" where
  "clear s =
    (Undefined, (emit (Ctx_clearRect 0 0 (of_int (width s)) (of_int (height s))) s)\<lparr>dirty := True\<rparr>)"

text \<open>
  \<^verbatim>\<open>getPixels(rect)\<close> returns what \<^verbatim>\<open>context.getImageData\<close> hands back, here the argument
  \<open>fetched\<close>.
\<close>

record rectangle =
  rect_x :: number
  rect_y :: number
  rect_width :: number
  rect_height :: number

definition getPixels :: "rectangle \<Rightarrow> int32 list \<Rightarrow> bitmapData \<Rightarrow> ret \<times> bitmapData" where
  "getPixels r fetched s =
    (ImageData fetched,
     emit (Ctx_getImageData (rect_x r) (rect_y r) (rect_width r) (rect_height r)) s)"

definition arc :: "env \<Rightarrow> number \<Rightarrow> number \<Rightarrow> number \<Rightarrow> number \<Rightarrow> number \<Rightarrow> bool option \<Rightarrow> bitmapData \<Rightarrow> (error + ret) \<times> bitmapData" where
  "arc E x y radius startAngle endAngle anticlockwise s =
    (let ac = (case anticlockwise of None \<Rightarrow> False | Some v \<Rightarrow> v)
     in invoke E (Ctx_arc x y radius startAngle endAngle ac) This (s\<lparr>dirty := True\<rparr>))"

definition arcTo :: "env \<Rightarrow> number \<Rightarrow> number \<Rightarrow> number \<Rightarrow> number \<Rightarrow> number \<Rightarrow> bitmapData \<Rightarrow> (error + ret) \<times> bitmapData" where
  "arcTo E x1 y1 x2 y2 radius s =
    invoke E (Ctx_arcTo x1 y1 x2 y2 radius) This (s\<lparr>dirty := True\<rparr>)"

definition fillStyle :: "style \<Rightarrow> bitmapData \<Rightarrow> ret \<times> bitmapData" where
  "fillStyle color s = (This, emit (Ctx_set_fillStyle color) s)"

definition strokeStyle :: "style \<Rightarrow> bitmapData \<Rightarrow> ret \<times> bitmapData" where
  "strokeStyle st s = (This, emit (Ctx_set_strokeStyle st) s)"

definition beginFill :: "style \<Rightarrow> bitmapData \<Rightarrow> ret \<times> bitmapData" where
  "beginFill color s = (This, snd (fillStyle color s))"

text \<open>
  Gradients are objects of the context. \<^verbatim>\<open>addColorStop\<close> throws a TypeError when the offset
  is \<^verbatim>\<open>undefined\<close> (\<open>None\<close>), an IndexSizeError when it is outside \<open>0..1\<close> and a SyntaxError
  when the colour does not parse; otherwise it appends the stop. The loop
  \<^verbatim>\<open>for (i = 0; i < colors.length; i++) gradient.addColorStop(ratios[i], colors[i])\<close> runs
  over the colours and ends at the first exception; \<^verbatim>\<open>ratios[i]\<close> is \<^verbatim>\<open>undefined\<close> past the
  end of \<^verbatim>\<open>ratios\<close>.
\<close>

definition append_stop :: "number option \<Rightarrow> string \<Rightarrow> gradient \<Rightarrow> gradient" where
  "append_stop offset color g =
    (case g of
       LinearGradient x0 y0 x1 y1 stops \<Rightarrow> LinearGradient x0 y0 x1 y1 (stops @ [(offset, color)])
     | RadialGradient x0 y0 r0 x1 y1 r1 stops \<Rightarrow>
         RadialGradient x0 y0 r0 x1 y1 r1 (stops @ [(offset, color)]))"

definition addColorStop :: "env \<Rightarrow> number option \<Rightarrow> string \<Rightarrow> gradient \<Rightarrow> error + gradient" where
  "addColorStop E offset color g =
    (case offset of
       None \<Rightarrow> Inl TypeError
     | Some v \<Rightarrow>
         (if v < 0 \<or> 1 < v then Inl IndexSizeError
          else if \<not> parses_color E color then Inl SyntaxError
          else Inr (append_stop offset color g)))"

fun addColorStops :: "env \<Rightarrow> nat \<Rightarrow> string list \<Rightarrow> number list \<Rightarrow> gradient \<Rightarrow> error + gradient" where
  "addColorStops E i [] ratios g = Inr g"
| "addColorStops E i (c # cs) ratios g =
     (case addColorStop E (if i < length ratios then Some (ratios ! i) else None) c g of
        Inl e \<Rightarrow> Inl e
      | Inr g' \<Rightarrow> addColorStops E (Suc i) cs ratios g')"

definition createLinearGradient :: "number \<Rightarrow> number \<Rightarrow> number \<Rightarrow> number \<Rightarrow> bitmapData \<Rightarrow> ret \<times> bitmapData" where
  "createLinearGradient x y w h s =
    (GradientObject (LinearGradient x y w h []), emit (Ctx_createLinearGradient x y w h) s)"

definition createRadialGradient :: "env \<Rightarrow> number \<Rightarrow> number \<Rightarrow> number \<Rightarrow> number \<Rightarrow> number \<Rightarrow> number \<Rightarrow> bitmapData \<Rightarrow> (error + ret) \<times> bitmapData" where
  "createRadialGradient E x0 y0 r0 x1 y1 r1 s =
    invoke E (Ctx_createRadialGradient x0 y0 r0 x1 y1 r1)
      (GradientObject (RadialGradient x0 y0 r0 x1 y1 r1 [])) s"

text \<open>
  The gradient helpers create the gradient, add the stops, assign the style and return
  \<^verbatim>\<open>this\<close>; an exception of \<^verbatim>\<open>createRadialGradient\<close> or of \<^verbatim>\<open>addColorStop\<close> leaves the method
  before the style is assigned.
\<close>

definition beginLinearGradientFill :: "env \<Rightarrow> string list \<Rightarrow> number list \<Rightarrow> number \<Rightarrow> number \<Rightarrow> number \<Rightarrow> number \<Rightarrow> bitmapData \<Rightarrow> (error + ret) \<times> bitmapData" where
  "beginLinearGradientFill E colors ratios x0 y0 x1 y1 s =
    (let s1 = snd (createLinearGradient x0 y0 x1 y1 s)
     in case addColorStops E 0 colors ratios (LinearGradient x0 y0 x1 y1 []) of
          Inl e \<Rightarrow> (Inl e, s1)
        | Inr gradient \<Rightarrow> (Inr This, snd (fillStyle (Gradient gradient) s1)))"

definition beginLinearGradientStroke :: "env \<Rightarrow> string list \<Rightarrow> number list \<Rightarrow> number \<Rightarrow> number \<Rightarrow> number \<Rightarrow> number \<Rightarrow> bitmapData \<Rightarrow> (error + ret) \<times> bitmapData" where
  "beginLinearGradientStroke E colors ratios x0 y0 x1 y1 s =
    (let s1 = snd (createLinearGradient x0 y0 x1 y1 s)
     in case addColorStops E 0 colors ratios (LinearGradient x0 y0 x1 y1 []) of
          Inl e \<Rightarrow> (Inl e, s1)
        | Inr gradient \<Rightarrow> (Inr This, snd (strokeStyle (Gradient gradient) s1)))"

definition beginRadialGradientStroke :: "env \<Rightarrow> string list \<Rightarrow> number list \<Rightarrow> number \<Rightarrow> number \<Rightarrow> number \<Rightarrow> number \<Rightarrow> number \<Rightarrow> number \<Rightarrow> bitmapData \<Rightarrow> (error + ret) \<times> bitmapData" where
  "beginRadialGradientStroke E colors ratios x0 y0 r0 x1 y1 r1 s =
    (case createRadialGradient E x0 y0 r0 x1 y1 r1 s of
       (Inl e, s1) \<Rightarrow> (Inl e, s1)
     | (Inr created, s1) \<Rightarrow>
         (case addColorStops E 0 colors ratios (RadialGradient x0 y0 r0 x1 y1 r1 []) of
            Inl e \<Rightarrow> (Inl e, s1)
          | Inr gradient \<Rightarrow> (Inr This, snd (strokeStyle (Gradient gradient) s1))))"

definition beginPath :: "bitmapData \<Rightarrow> ret \<times> bitmapData" where
  "beginPath s = (This, emit Ctx_beginPath s)"

definition beginStroke :: "style \<Rightarrow> bitmapData \<Rightarrow> ret \<times> bitmapData" where
  "beginStroke color s = (This, snd (strokeStyle color s))"

definition bezierCurveTo :: "number \<Rightarrow> number \<Rightarrow> number \<Rightarrow> number \<Rightarrow> number \<Rightarrow> number \<Rightarrow> bitmapData \<Rightarrow> ret \<times> bitmapData" where
  "bezierCurveTo cp1x cp1y cp2x cp2y x y s =
    (This, emit (Ctx_bezierCurveTo cp1x cp1y cp2x cp2y x y) (s\<lparr>dirty := True\<rparr>))"

text \<open>
  \<^verbatim>\<open>circle\<close> calls \<^verbatim>\<open>this.arc(x, y, radius, 0, Math.PI*2)\<close>, with no sixth argument, and then
  returns \<^verbatim>\<open>this\<close>; an exception of \<^verbatim>\<open>arc\<close> leaves \<^verbatim>\<open>circle\<close> too.
\<close>

definition circle :: "env \<Rightarrow> number \<Rightarrow> number \<Rightarrow> number \<Rightarrow> bitmapData \<Rightarrow> (error + ret) \<times> bitmapData" where
  "circle E x y radius s =
    (case arc E x y radius 0 (pi * 2) None s of
       (Inl e, s1) \<Rightarrow> (Inl e, s1)
     | (Inr returned, s1) \<Rightarrow> (Inr This, s1))"

definition clearRect :: "number \<Rightarrow> number \<Rightarrow> number \<Rightarrow> number \<Rightarrow> bitmapData \<Rightarrow> ret \<times> bitmapData" where
  "clearRect x y w h s = (This, emit (Ctx_clearRect x y w h) (s\<lparr>dirty := True\<rparr>))"

definition clip :: "bitmapData \<Rightarrow> ret \<times> bitmapData" where
  "clip s = (This, emit Ctx_clip (s\<lparr>dirty := True\<rparr>))"

definition closePath :: "bitmapData \<Rightarrow> ret \<times> bitmapData" where
  "closePath s = (This, emit Ctx_closePath (s\<lparr>dirty := True\<rparr>))"

definition moveTo :: "number \<Rightarrow> number \<Rightarrow> bitmapData \<Rightarrow> ret \<times> bitmapData" where
  "moveTo x y s = (This, emit (Ctx_moveTo x y) s)"

definition ellipse :: "number \<Rightarrow> number \<Rightarrow> number \<Rightarrow> number \<Rightarrow> bitmapData \<Rightarrow> ret \<times> bitmapData" where
  "ellipse x y w h s =
    (let k = 0.5522848;
         ox = (w / 2) * k;
         oy = (h / 2) * k;
         xe = x + w;
         ye = y + h;
         xm = x + w / 2;
         ym = y + h / 2;
         s1 = snd (moveTo x ym s);
         s2 = snd (bezierCurveTo x (ym - oy) (xm - ox) y xm y s1);
         s3 = snd (bezierCurveTo (xm + ox) y xe (ym - oy) xe ym s2);
         s4 = snd (bezierCurveTo xe (ym + oy) (xm + ox) ye xm ye s3);
         s5 = snd (bezierCurveTo (xm - ox) ye x (ym + oy) x ym s4)
     in (This, s5))"

definition fill :: "bitmapData \<Rightarrow> ret \<times> bitmapData" where
  "fill s = (This, emit Ctx_fill (s\<lparr>dirty := True\<rparr>))"

definition fillRect :: "number \<Rightarrow> number \<Rightarrow> number \<Rightarrow> number \<Rightarrow> bitmapData \<Rightarrow> ret \<times> bitmapData" where
  "fillRect x y w h s = (This, emit (Ctx_fillRect x y w h) (s\<lparr>dirty := True\<rparr>))"

definition font :: "string \<Rightarrow> bitmapData \<Rightarrow> ret \<times> bitmapData" where
  "font f s = (This, emit (Ctx_set_font f) s)"

definition globalAlpha :: "number \<Rightarrow> bitmapData \<Rightarrow> ret \<times> bitmapData" where
  "globalAlpha alpha s = (This, emit (Ctx_set_globalAlpha alpha) s)"

definition globalCompositeOperation :: "string \<Rightarrow> bitmapData \<Rightarrow> ret \<times> bitmapData" where
  "globalCompositeOperation operation s = (This, emit (Ctx_set_globalCompositeOperation operation) s)"

definition lineCap :: "string \<Rightarrow> bitmapData \<Rightarrow> ret \<times> bitmapData" where
  "lineCap st s = (This, emit (Ctx_set_lineCap st) s)"

definition lineDashOffset :: "number \<Rightarrow> bitmapData \<Rightarrow> ret \<times> bitmapData" where
  "lineDashOffset offset s = (This, emit (Ctx_set_lineDashOffset offset) s)"

definition lineJoin :: "string \<Rightarrow> bitmapData \<Rightarrow> ret \<times> bitmapData" where
  "lineJoin join s = (This, emit (Ctx_set_lineJoin join) s)"

definition lineWidth :: "number \<Rightarrow> bitmapData \<Rightarrow> ret \<times> bitmapData" where
  "lineWidth w s = (This, emit (Ctx_set_lineWidth w) s)"

definition miterLimit :: "number \<Rightarrow> bitmapData \<Rightarrow> ret \<times> bitmapData" where
  "miterLimit limit s = (This, emit (Ctx_set_miterLimit limit) s)"

definition lineTo :: "number \<Rightarrow> number \<Rightarrow> bitmapData \<Rightarrow> ret \<times> bitmapData" where
  "lineTo x y s = (This, emit (Ctx_lineTo x y) (s\<lparr>dirty := True\<rparr>))"

definition quadraticCurveTo :: "number \<Rightarrow> number \<Rightarrow> number \<Rightarrow> number \<Rightarrow> bitmapData \<Rightarrow> ret \<times> bitmapData" where
  "quadraticCurveTo cpx cpy x y s = (This, emit (Ctx_quadraticCurveTo cpx cpy x y) (s\<lparr>dirty := True\<rparr>))"

definition rect :: "number \<Rightarrow> number \<Rightarrow> number \<Rightarrow> number \<Rightarrow> bitmapData \<Rightarrow> ret \<times> bitmapData" where
  "rect x y w h s = (This, emit (Ctx_rect x y w h) (s\<lparr>dirty := True\<rparr>))"

definition restore :: "bitmapData \<Rightarrow> ret \<times> bitmapData" where
  "restore s = (This, emit Ctx_restore (s\<lparr>dirty := True\<rparr>))"

definition rotate_ctx :: "number \<Rightarrow> bitmapData \<Rightarrow> ret \<times> bitmapData" where
  "rotate_ctx angle s = (This, emit (Ctx_rotate angle) (s\<lparr>dirty := True\<rparr>))"

text \<open>
  \<^verbatim>\<open>setStrokeStyle\<close> gives each omitted argument its default and overwrites \<^verbatim>\<open>ignoreScale\<close>,
  which it never uses.
\<close>

definition setStrokeStyle :: "number option \<Rightarrow> string option \<Rightarrow> string option \<Rightarrow> number option \<Rightarrow> bool option \<Rightarrow> bitmapData \<Rightarrow> ret \<times> bitmapData" where
  "setStrokeStyle thickness caps joints miter ignoreScale s =
    (let thickness' = (case thickness of None \<Rightarrow> 1 | Some v \<Rightarrow> v);
         caps' = (case caps of None \<Rightarrow> ''butt'' | Some v \<Rightarrow> v);
         joints' = (case joints of None \<Rightarrow> ''miter'' | Some v \<Rightarrow> v);
         miter' = (case miter of None \<Rightarrow> 10 | Some v \<Rightarrow> v);
         s1 = snd (lineWidth thickness' s);
         s2 = snd (lineCap caps' s1);
         s3 = snd (lineJoin joints' s2);
         s4 = snd (miterLimit miter' s3)
     in (This, s4))"

definition save :: "bitmapData \<Rightarrow> ret \<times> bitmapData" where
  "save s = (This, emit Ctx_save (s\<lparr>dirty := True\<rparr>))"

definition scale_ctx :: "number \<Rightarrow> number \<Rightarrow> bitmapData \<Rightarrow> ret \<times> bitmapData" where
  "scale_ctx x y s = (This, emit (Ctx_scale x y) (s\<lparr>dirty := True\<rparr>))"

definition scrollPathIntoView :: "env \<Rightarrow> bitmapData \<Rightarrow> (error + ret) \<times> bitmapData" where
  "scrollPathIntoView E s = invoke E Ctx_scrollPathIntoView This (s\<lparr>dirty := True\<rparr>)"

definition stroke :: "bitmapData \<Rightarrow> ret \<times> bitmapData" where
  "stroke s = (This, emit Ctx_stroke (s\<lparr>dirty := True\<rparr>))"

definition strokeRect :: "number \<Rightarrow> number \<Rightarrow> number \<Rightarrow> number \<Rightarrow> bitmapData \<Rightarrow> ret \<times> bitmapData" where
  "strokeRect x y w h s = (This, emit (Ctx_strokeRect x y w h) (s\<lparr>dirty := True\<rparr>))"

section \<open>Sprites, the upload queue and the synchronisation step\<close>

text \<open>
  Outside \<^verbatim>\<open>this\<close> the file touches the sprites it is given (it calls their \<^verbatim>\<open>loadTexture\<close>) and
  the global array \<^verbatim>\<open>PIXI.texturesToUpdate\<close>. A \<open>world\<close> holds the surface, that array and the
  sprites on which \<^verbatim>\<open>loadTexture(this)\<close> has been called, in order.
\<close>

record sprite =
  sprite_key :: string
  sprite_texture :: bool

record world =
  bmd :: bitmapData
  texturesToUpdate :: "canvas_ref list"
  loadTexture_calls :: "sprite list"

definition add :: "sprite \<Rightarrow> world \<Rightarrow> ret \<times> world" where
  "add sp w = (Undefined, w\<lparr>loadTexture_calls := loadTexture_calls w @ [sp]\<rparr>)"

fun addTo_loop :: "sprite list \<Rightarrow> sprite list \<Rightarrow> sprite list" where
  "addTo_loop [] called = called"
| "addTo_loop (sp # rest) called =
     addTo_loop rest (if sprite_texture sp then called @ [sp] else called)"

definition addTo :: "sprite list \<Rightarrow> world \<Rightarrow> ret \<times> world" where
  "addTo sprites w = (Undefined, w\<lparr>loadTexture_calls := addTo_loop sprites (loadTexture_calls w)\<rparr>)"

definition render :: "env \<Rightarrow> world \<Rightarrow> ret \<times> world" where
  "render E w =
    (if dirty (bmd w)
     then (Undefined,
           w\<lparr>bmd := (bmd w)\<lparr>dirty := False\<rparr>,
             texturesToUpdate :=
               (if renderType (game (bmd w)) = WEBGL E
                then texturesToUpdate w @ [baseTexture (bmd w)]
                else texturesToUpdate w)\<rparr>)
     else (Undefined, w))"

definition new_world :: "env \<Rightarrow> game_ref \<Rightarrow> int option \<Rightarrow> int option \<Rightarrow> world" where
  "new_world E g width_arg height_arg =
    \<lparr>bmd = BitmapData E g width_arg height_arg, texturesToUpdate = [], loadTexture_calls = []\<rparr>"

section \<open>Calls of the interface\<close>

text \<open>
  One constructor for each method of the prototype, with its arguments; \<open>exec\<close> runs a call
  and gives what the caller sees (the returned value, or the exception thrown) with the
  world after it. \<open>Op_refreshBuffer\<close> and \<open>Op_getPixels\<close> carry the pixels that the context
  hands back. \<open>on_this\<close> lifts a method with no throwing path, \<open>on_this_throwing\<close> one
  that a delegated call can leave by an exception, \<open>reading\<close> a method that only reads.
\<close>

datatype call =
    Op_add sprite
  | Op_addTo "sprite list"
  | Op_clear
  | Op_refreshBuffer "int32 list"
  | Op_setPixel32 int int int int int int
  | Op_setPixel int int int int int
  | Op_getPixel int int
  | Op_getPixel32 int int
  | Op_getPixels rectangle "int32 list"
  | Op_arc number number number number number "bool option"
  | Op_arcTo number number number number number
  | Op_beginFill style
  | Op_beginLinearGradientFill "string list" "number list" number number number number
  | Op_beginLinearGradientStroke "string list" "number list" number number number number
  | Op_beginRadialGradientStroke "string list" "number list" number number number number number number
  | Op_beginPath
  | Op_beginStroke style
  | Op_bezierCurveTo number number number number number number
  | Op_circle number number number
  | Op_clearRect number number number number
  | Op_clip
  | Op_closePath
  | Op_createLinearGradient number number number number
  | Op_createRadialGradient number number number number number number
  | Op_ellipse number number number number
  | Op_fill
  | Op_fillRect number number number number
  | Op_fillStyle style
  | Op_font string
  | Op_globalAlpha number
  | Op_globalCompositeOperation string
  | Op_lineCap string
  | Op_lineDashOffset number
  | Op_lineJoin string
  | Op_lineWidth number
  | Op_miterLimit number
  | Op_lineTo number number
  | Op_moveTo number number
  | Op_quadraticCurveTo number number number number
  | Op_rect number number number number
  | Op_restore
  | Op_rotate number
  | Op_setStrokeStyle "number option" "string option" "string option" "number option" "bool option"
  | Op_save
  | Op_scale number number
  | Op_scrollPathIntoView
  | Op_stroke
  | Op_strokeRect number number number number
  | Op_strokeStyle style
  | Op_render

definition on_this :: "(bitmapData \<Rightarrow> ret \<times> bitmapData) \<Rightarrow> world \<Rightarrow> (error + ret) \<times> world" where
  "on_this m w = (Inr (fst (m (bmd w))), w\<lparr>bmd := snd (m (bmd w))\<rparr>)"

definition on_this_throwing :: "(bitmapData \<Rightarrow> (error + ret) \<times> bitmapData) \<Rightarrow> world \<Rightarrow> (error + ret) \<times> world" where
  "on_this_throwing m w = (fst (m (bmd w)), w\<lparr>bmd := snd (m (bmd w))\<rparr>)"

definition reading :: "(bitmapData \<Rightarrow> error + ret) \<Rightarrow> world \<Rightarrow> (error + ret) \<times> world" where
  "reading m w = (m (bmd w), w)"

definition on_world :: "(world \<Rightarrow> ret \<times> world) \<Rightarrow> world \<Rightarrow> (error + ret) \<times> world" where
  "on_world m w = (Inr (fst (m w)), snd (m w))"

primrec exec :: "env \<Rightarrow> call \<Rightarrow> world \<Rightarrow> (error + ret) \<times> world" where
  "exec E (Op_add sp) w = on_world (add sp) w"
| "exec E (Op_addTo sprites) w = on_world (addTo sprites) w"
| "exec E Op_clear w = on_this clear w"
| "exec E (Op_refreshBuffer fetched) w = on_this (refreshBuffer E fetched) w"
| "exec E (Op_setPixel32 x y r g b a) w = on_this (setPixel32 x y r g b a) w"
| "exec E (Op_setPixel x y r g b) w = on_this (setPixel x y r g b) w"
| "exec E (Op_getPixel x y) w = reading (getPixel x y) w"
| "exec E (Op_getPixel32 x y) w = reading (getPixel32 x y) w"
| "exec E (Op_getPixels r fetched) w = on_this (getPixels r fetched) w"
| "exec E (Op_arc x y radius sa ea ac) w = on_this_throwing (arc E x y radius sa ea ac) w"
| "exec E (Op_arcTo x1 y1 x2 y2 radius) w = on_this_throwing (arcTo E x1 y1 x2 y2 radius) w"
| "exec E (Op_beginFill color) w = on_this (beginFill color) w"
| "exec E (Op_beginLinearGradientFill cs rs x0 y0 x1 y1) w =
     on_this_throwing (beginLinearGradientFill E cs rs x0 y0 x1 y1) w"
| "exec E (Op_beginLinearGradientStroke cs rs x0 y0 x1 y1) w =
     on_this_throwing (beginLinearGradientStroke E cs rs x0 y0 x1 y1) w"
| "exec E (Op_beginRadialGradientStroke cs rs x0 y0 r0 x1 y1 r1) w =
     on_this_throwing (beginRadialGradientStroke E cs rs x0 y0 r0 x1 y1 r1) w"
| "exec E Op_beginPath w = on_this beginPath w"
| "exec E (Op_beginStroke color) w = on_this (beginStroke color) w"
| "exec E (Op_bezierCurveTo a b c d e f) w = on_this (bezierCurveTo a b c d e f) w"
| "exec E (Op_circle x y radius) w = on_this_throwing (circle E x y radius) w"
| "exec E (Op_clearRect x y wd ht) w = on_this (clearRect x y wd ht) w"
| "exec E Op_clip w = on_this clip w"
| "exec E Op_closePath w = on_this closePath w"
| "exec E (Op_createLinearGradient x y wd ht) w = on_this (createLinearGradient x y wd ht) w"
| "exec E (Op_createRadialGradient x0 y0 r0 x1 y1 r1) w =
     on_this_throwing (createRadialGradient E x0 y0 r0 x1 y1 r1) w"
| "exec E (Op_ellipse x y wd ht) w = on_this (ellipse x y wd ht) w"
| "exec E Op_fill w = on_this fill w"
| "exec E (Op_fillRect x y wd ht) w = on_this (fillRect x y wd ht) w"
| "exec E (Op_fillStyle color) w = on_this (fillStyle color) w"
| "exec E (Op_font f) w = on_this (font f) w"
| "exec E (Op_globalAlpha a) w = on_this (globalAlpha a) w"
| "exec E (Op_globalCompositeOperation operation) w = on_this (globalCompositeOperation operation) w"
| "exec E (Op_lineCap st) w = on_this (lineCap st) w"
| "exec E (Op_lineDashOffset offset) w = on_this (lineDashOffset offset) w"
| "exec E (Op_lineJoin join) w = on_this (lineJoin join) w"
| "exec E (Op_lineWidth wd) w = on_this (lineWidth wd) w"
| "exec E (Op_miterLimit limit) w = on_this (miterLimit limit) w"
| "exec E (Op_lineTo x y) w = on_this (lineTo x y) w"
| "exec E (Op_moveTo x y) w = on_this (moveTo x y) w"
| "exec E (Op_quadraticCurveTo cpx cpy x y) w = on_this (quadraticCurveTo cpx cpy x y) w"
| "exec E (Op_rect x y wd ht) w = on_this (rect x y wd ht) w"
| "exec E Op_restore w = on_this restore w"
| "exec E (Op_rotate angle) w = on_this (rotate_ctx angle) w"
| "exec E (Op_setStrokeStyle th caps joints miter ign) w =
     on_this (setStrokeStyle th caps joints miter ign) w"
| "exec E Op_save w = on_this save w"
| "exec E (Op_scale x y) w = on_this (scale_ctx x y) w"
| "exec E Op_scrollPathIntoView w = on_this_throwing (scrollPathIntoView E) w"
| "exec E Op_stroke w = on_this stroke w"
| "exec E (Op_strokeRect x y wd ht) w = on_this (strokeRect x y wd ht) w"
| "exec E (Op_strokeStyle st) w = on_this (strokeStyle st) w"
| "exec E Op_render w = on_world (render E) w"

text \<open>A sequence of calls, each started in the world the one before left.\<close>

definition run :: "env \<Rightarrow> call list \<Rightarrow> world \<Rightarrow> world" where
  "run E cs w = foldl (\<lambda>v c. snd (exec E c v)) w cs"


section \<open>Classifying the calls\<close>

text \<open>
  The calls whose method ends with \<^verbatim>\<open>return this\<close>. The others end without a \<^verbatim>\<open>return\<close>
  (\<^verbatim>\<open>add\<close>, \<^verbatim>\<open>addTo\<close>, \<^verbatim>\<open>clear\<close>, \<^verbatim>\<open>refreshBuffer\<close>, \<^verbatim>\<open>setPixel32\<close>, \<^verbatim>\<open>setPixel\<close>, \<^verbatim>\<open>render\<close>) or
  return a value.
\<close>

definition chainable :: "call \<Rightarrow> bool" where
  "chainable c =
    (case c of
       Op_add _ \<Rightarrow> False
     | Op_addTo _ \<Rightarrow> False
     | Op_clear \<Rightarrow> False
     | Op_refreshBuffer _ \<Rightarrow> False
     | Op_setPixel32 _ _ _ _ _ _ \<Rightarrow> False
     | Op_setPixel _ _ _ _ _ \<Rightarrow> False
     | Op_getPixel _ _ \<Rightarrow> False
     | Op_getPixel32 _ _ \<Rightarrow> False
     | Op_getPixels _ _ \<Rightarrow> False
     | Op_createLinearGradient _ _ _ _ \<Rightarrow> False
     | Op_createRadialGradient _ _ _ _ _ _ \<Rightarrow> False
     | Op_render \<Rightarrow> False
     | _ \<Rightarrow> True)"

text \<open>
  The arguments on which no call that a method delegates to throws: a radius that is not
  negative for \<^verbatim>\<open>arc\<close>, \<^verbatim>\<open>arcTo\<close>, \<^verbatim>\<open>circle\<close> and the radial gradient, for every colour of a
  gradient helper a ratio in \<open>0..1\<close> at the same index and a colour that parses, and a
  context that has the method for \<^verbatim>\<open>scrollPathIntoView\<close>.
\<close>

primrec stops_accepted :: "env \<Rightarrow> string list \<Rightarrow> nat \<Rightarrow> number list \<Rightarrow> bool" where
  "stops_accepted E [] i ratios = True"
| "stops_accepted E (c # cs) i ratios =
     (i < length ratios \<and> 0 \<le> ratios ! i \<and> ratios ! i \<le> 1 \<and> parses_color E c
      \<and> stops_accepted E cs (Suc i) ratios)"

definition accepted :: "env \<Rightarrow> call \<Rightarrow> bool" where
  "accepted E c =
    (case c of
       Op_arc _ _ radius _ _ _ \<Rightarrow> 0 \<le> radius
     | Op_arcTo _ _ _ _ radius \<Rightarrow> 0 \<le> radius
     | Op_circle _ _ radius \<Rightarrow> 0 \<le> radius
     | Op_beginLinearGradientFill cs rs _ _ _ _ \<Rightarrow> stops_accepted E cs 0 rs
     | Op_beginLinearGradientStroke cs rs _ _ _ _ \<Rightarrow> stops_accepted E cs 0 rs
     | Op_beginRadialGradientStroke cs rs _ _ r0 _ _ r1 \<Rightarrow>
         0 \<le> r0 \<and> 0 \<le> r1 \<and> stops_accepted E cs 0 rs
     | Op_createRadialGradient _ _ r0 _ _ r1 \<Rightarrow> 0 \<le> r0 \<and> 0 \<le> r1
     | Op_scrollPathIntoView \<Rightarrow> has_scrollPathIntoView E
     | _ \<Rightarrow> True)"

text \<open>
  The calls that execute \<^verbatim>\<open>this._dirty = true\<close>, directly or through a method they call;
  \<^verbatim>\<open>setPixel32\<close> and \<^verbatim>\<open>setPixel\<close> do so when their guard holds.
\<close>

definition marksDirty :: "bitmapData \<Rightarrow> call \<Rightarrow> bool" where
  "marksDirty s c =
    (case c of
       Op_clear \<Rightarrow> True
     | Op_setPixel32 x y _ _ _ _ \<Rightarrow> boundsCheck s x y
     | Op_setPixel x y _ _ _ \<Rightarrow> boundsCheck s x y
     | Op_arc _ _ _ _ _ _ \<Rightarrow> True
     | Op_arcTo _ _ _ _ _ \<Rightarrow> True
     | Op_bezierCurveTo _ _ _ _ _ _ \<Rightarrow> True
     | Op_circle _ _ _ \<Rightarrow> True
     | Op_clearRect _ _ _ _ \<Rightarrow> True
     | Op_clip \<Rightarrow> True
     | Op_closePath \<Rightarrow> True
     | Op_ellipse _ _ _ _ \<Rightarrow> True
     | Op_fill \<Rightarrow> True
     | Op_fillRect _ _ _ _ \<Rightarrow> True
     | Op_lineTo _ _ \<Rightarrow> True
     | Op_quadraticCurveTo _ _ _ _ \<Rightarrow> True
     | Op_rect _ _ _ _ \<Rightarrow> True
     | Op_restore \<Rightarrow> True
     | Op_rotate _ \<Rightarrow> True
     | Op_save \<Rightarrow> True
     | Op_scale _ _ \<Rightarrow> True
     | Op_scrollPathIntoView \<Rightarrow> True
     | Op_stroke \<Rightarrow> True
     | Op_strokeRect _ _ _ _ \<Rightarrow> True
     | _ \<Rightarrow> False)"

text \<open>
  The commands of the context that write pixels of the canvas: its painting calls and
  \<^verbatim>\<open>putImageData\<close>. The other commands read pixels, build the current path, or change the
  drawing state (styles, transform, clip, state stack).
\<close>

definition paints :: "ctx_cmd \<Rightarrow> bool" where
  "paints c =
    (case c of
       Ctx_putImageData _ _ _ \<Rightarrow> True
     | Ctx_clearRect _ _ _ _ \<Rightarrow> True
     | Ctx_fill \<Rightarrow> True
     | Ctx_fillRect _ _ _ _ \<Rightarrow> True
     | Ctx_stroke \<Rightarrow> True
     | Ctx_strokeRect _ _ _ _ \<Rightarrow> True
     | _ \<Rightarrow> False)"

text \<open>The commands a call issues to the context: what it appends to the record.\<close>

definition issued :: "env \<Rightarrow> call \<Rightarrow> world \<Rightarrow> ctx_cmd list" where
  "issued E c w = drop (length (ctx (bmd w))) (ctx (bmd (snd (exec E c w))))"

definition is_refreshBuffer :: "call \<Rightarrow> bool" where
  "is_refreshBuffer c = (case c of Op_refreshBuffer _ \<Rightarrow> True | _ \<Rightarrow> False)"

text \<open>
  A call writes the pixel buffer when it issues a painting command, or when it is not
  \<^verbatim>\<open>refreshBuffer\<close> (which replaces the cached pixels by what the context hands back) and
  changes the packed pixels or the object \<^verbatim>\<open>this.pixels\<close>.
\<close>

definition writesBuffer :: "env \<Rightarrow> call \<Rightarrow> world \<Rightarrow> bool" where
  "writesBuffer E c w =
    (list_ex paints (issued E c w)
     \<or> (\<not> is_refreshBuffer c
        \<and> (imageData (bmd (snd (exec E c w))) \<noteq> imageData (bmd w)
           \<or> pixels (bmd (snd (exec E c w))) \<noteq> pixels (bmd w))))"

text \<open>The calls of a sequence that come after its last \<^verbatim>\<open>render()\<close>.\<close>

definition since_last_render :: "call list \<Rightarrow> call list" where
  "since_last_render cs = rev (takeWhile (\<lambda>c. c \<noteq> Op_render) (rev cs))"

section \<open>Concrete surfaces\<close>

text \<open>
  A 4 by 4 surface in a WebGL game on a host whose pixel arrays have a buffer, the same
  surface after \<^verbatim>\<open>refreshBuffer()\<close> on the untouched canvas, and the same surface in a game
  that renders to a canvas; used to evaluate the methods on concrete inputs. The values of
  the two constants and of the render types are stand-ins: only their being equal or not
  matters.
\<close>

definition example_env :: env where
  "example_env = \<lparr>data_has_buffer = True, WEBGL = 2, BITMAPDATA = 11,
     has_scrollPathIntoView = False, parses_color = (\<lambda>c. True)\<rparr>"

definition example_game :: game_ref where
  "example_game = \<lparr>renderType = 2, rnd_uuid = ''f3a1''\<rparr>"

definition example_canvas_game :: game_ref where
  "example_canvas_game = \<lparr>renderType = 1, rnd_uuid = ''f3a1''\<rparr>"

definition example_surface :: bitmapData where
  "example_surface = BitmapData example_env example_game (Some 4) (Some 4)"

definition example_refreshed :: bitmapData where
  "example_refreshed = snd (refreshBuffer example_env (replicate 16 0) example_surface)"

definition example_world :: world where
  "example_world = new_world example_env example_game (Some 4) (Some 4)"

definition example_canvas_world :: world where
  "example_canvas_world = new_world example_env example_canvas_game (Some 4) (Some 4)"

section \<open>Basic facts\<close>

lemma replicate16: "replicate 16 (0::int32) = [0,0,0,0,0,0,0,0,0,0,0,0,0,0,0,0]"
  by (simp add: numeral_eq_Suc)

lemmas method_defs =
  clear_def refreshBuffer_def setPixel_def getPixels_def arc_def arcTo_def beginFill_def
  beginPath_def beginStroke_def bezierCurveTo_def clearRect_def clip_def closePath_def
  createLinearGradient_def createRadialGradient_def ellipse_def fill_def fillRect_def fillStyle_def
  font_def globalAlpha_def globalCompositeOperation_def lineCap_def lineDashOffset_def lineJoin_def
  lineWidth_def miterLimit_def lineTo_def moveTo_def quadraticCurveTo_def rect_def restore_def
  rotate_ctx_def setStrokeStyle_def save_def scale_ctx_def scrollPathIntoView_def stroke_def
  strokeRect_def strokeStyle_def emit_def

lemmas lift_defs = on_this_def on_this_throwing_def on_world_def reading_def add_def addTo_def

lemmas example_defs =
  example_env_def example_game_def example_canvas_game_def example_surface_def
  example_refreshed_def example_world_def example_canvas_world_def new_world_def BitmapData_def

lemma setPixel32_fst: "fst (setPixel32 x y r g b a s) = Undefined"
  by (simp add: setPixel32_def split: prod.split)

lemma setPixel32_dirty: "dirty (snd (setPixel32 x y r g b a s)) = (dirty s \<or> boundsCheck s x y)"
  by (simp add: setPixel32_def split: prod.split)

lemma setPixel32_dims:
  "width (snd (setPixel32 x y r g b a s)) = width s
   \<and> height (snd (setPixel32 x y r g b a s)) = height s"
  by (simp add: setPixel32_def split: prod.split)

lemma setPixel32_data32: "data32 (snd (setPixel32 x y r g b a s)) = data32 s"
  by (simp add: setPixel32_def split: prod.split)

lemma setPixel32_skipped: "\<not> boundsCheck s x y \<Longrightarrow> snd (setPixel32 x y r g b a s) = s"
  by (simp add: setPixel32_def)

lemma setPixel_eq_setPixel32_opaque: "setPixel x y r g b s = setPixel32 x y r g b 255 s"
  by (simp add: setPixel_def prod_eq_iff setPixel32_fst)

lemma render_frame:
  "imageData (bmd (snd (render E w))) = imageData (bmd w)
   \<and> pixels (bmd (snd (render E w))) = pixels (bmd w)
   \<and> ctx (bmd (snd (render E w))) = ctx (bmd w)
   \<and> data32 (bmd (snd (render E w))) = data32 (bmd w)
   \<and> width (bmd (snd (render E w))) = width (bmd w)
   \<and> height (bmd (snd (render E w))) = height (bmd w)"
  by (simp add: render_def)

lemma run_snoc: "run E (cs @ [c]) w = snd (exec E c (run E cs w))"
  by (simp add: run_def)

subsection \<open>Delegated calls that throw\<close>

text \<open>
  Whether or not the context throws, the call is recorded and nothing else of the state
  changes.
\<close>

lemma invoke_snd: "snd (invoke E c r s) = emit c s"
  by (simp add: invoke_def split: option.split)

lemma invoke_fst:
  "fst (invoke E c r s) = (case ctx_throws E c of Some e \<Rightarrow> Inl e | None \<Rightarrow> Inr r)"
  by (simp add: invoke_def split: option.split)

lemma circle_snd: "snd (circle E x y radius s) = snd (arc E x y radius 0 (pi * 2) None s)"
  by (simp add: circle_def split: prod.split sum.split)

lemma circle_fst:
  "fst (circle E x y radius s) = (if radius < 0 then Inl IndexSizeError else Inr This)"
  by (simp add: circle_def arc_def invoke_def ctx_throws_def split: prod.split sum.split)

lemma addColorStops_accepted:
  "isl (addColorStops E i cs ratios g) = (\<not> stops_accepted E cs i ratios)"
  by (induction cs arbitrary: i g) (auto simp add: addColorStop_def split: sum.split)

lemma beginLinearGradientFill_snd:
  "snd (beginLinearGradientFill E cs rs x0 y0 x1 y1 s) =
     (case addColorStops E 0 cs rs (LinearGradient x0 y0 x1 y1 []) of
        Inl e \<Rightarrow> emit (Ctx_createLinearGradient x0 y0 x1 y1) s
      | Inr g \<Rightarrow> emit (Ctx_set_fillStyle (Gradient g)) (emit (Ctx_createLinearGradient x0 y0 x1 y1) s))"
  by (simp add: beginLinearGradientFill_def createLinearGradient_def fillStyle_def
      split: sum.split)

lemma beginLinearGradientStroke_snd:
  "snd (beginLinearGradientStroke E cs rs x0 y0 x1 y1 s) =
     (case addColorStops E 0 cs rs (LinearGradient x0 y0 x1 y1 []) of
        Inl e \<Rightarrow> emit (Ctx_createLinearGradient x0 y0 x1 y1) s
      | Inr g \<Rightarrow> emit (Ctx_set_strokeStyle (Gradient g)) (emit (Ctx_createLinearGradient x0 y0 x1 y1) s))"
  by (simp add: beginLinearGradientStroke_def createLinearGradient_def strokeStyle_def
      split: sum.split)

lemma beginRadialGradientStroke_snd:
  "snd (beginRadialGradientStroke E cs rs x0 y0 r0 x1 y1 r1 s) =
     (if r0 < 0 \<or> r1 < 0 then emit (Ctx_createRadialGradient x0 y0 r0 x1 y1 r1) s
      else case addColorStops E 0 cs rs (RadialGradient x0 y0 r0 x1 y1 r1 []) of
        Inl e \<Rightarrow> emit (Ctx_createRadialGradient x0 y0 r0 x1 y1 r1) s
      | Inr g \<Rightarrow>
          emit (Ctx_set_strokeStyle (Gradient g)) (emit (Ctx_createRadialGradient x0 y0 r0 x1 y1 r1) s))"
  by (simp add: beginRadialGradientStroke_def createRadialGradient_def invoke_def ctx_throws_def
      strokeStyle_def split: sum.split prod.split)

lemma gradient_helpers_fst:
  "fst (beginLinearGradientFill E cs rs x0 y0 x1 y1 s) =
     (case addColorStops E 0 cs rs (LinearGradient x0 y0 x1 y1 []) of
        Inl e \<Rightarrow> Inl e | Inr g \<Rightarrow> Inr This)"
  "fst (beginLinearGradientStroke E cs rs x0 y0 x1 y1 s) =
     (case addColorStops E 0 cs rs (LinearGradient x0 y0 x1 y1 []) of
        Inl e \<Rightarrow> Inl e | Inr g \<Rightarrow> Inr This)"
  "fst (beginRadialGradientStroke E cs rs x0 y0 r0 x1 y1 r1 s) =
     (if r0 < 0 \<or> r1 < 0 then Inl IndexSizeError
      else case addColorStops E 0 cs rs (RadialGradient x0 y0 r0 x1 y1 r1 []) of
        Inl e \<Rightarrow> Inl e | Inr g \<Rightarrow> Inr This)"
  by (simp_all add: beginLinearGradientFill_def beginLinearGradientStroke_def
      beginRadialGradientStroke_def createRadialGradient_def invoke_def ctx_throws_def
      split: sum.split prod.split)

lemma stops_result_This:
  "((case addColorStops E i cs rs g of Inl e \<Rightarrow> Inl e | Inr g' \<Rightarrow> Inr This) = Inr This)
     = stops_accepted E cs i rs"
  using addColorStops_accepted [of E i cs rs g] by (cases "addColorStops E i cs rs g") auto

lemma stops_result_isl:
  "isl (case addColorStops E i cs rs g of Inl e \<Rightarrow> Inl e | Inr g' \<Rightarrow> Inr This)
     = (\<not> stops_accepted E cs i rs)"
  using addColorStops_accepted [of E i cs rs g] by (cases "addColorStops E i cs rs g") auto

lemmas throwing_snd =
  invoke_snd circle_snd beginLinearGradientFill_snd beginLinearGradientStroke_snd
  beginRadialGradientStroke_snd

lemmas throwing_fst = invoke_fst circle_fst gradient_helpers_fst

subsection \<open>The layout of a packed pixel\<close>

text \<open>
  For channels in \<open>0..255\<close> the packed word holds red in bits 0 to 7, green in bits 8 to 15,
  blue in bits 16 to 23 and alpha in bits 24 to 31.
\<close>

lemma byte_bit:
  assumes "0 \<le> r" and "r \<le> 255" and "8 \<le> n"
  shows "\<not> bit (r::int) n"
proof -
  have "(2::int) ^ 8 \<le> 2 ^ n" using assms(3) by (rule power_increasing) simp
  then have "r < 2 ^ n" using assms(2) by simp
  then have "r div 2 ^ n = 0" using assms(1) by simp
  then show ?thesis by (simp add: bit_iff_odd)
qed

lemma pack32_layout:
  assumes "0 \<le> r" "r \<le> 255" "0 \<le> g" "g \<le> 255" "0 \<le> b" "b \<le> 255" "0 \<le> a" "a \<le> 255"
  shows "take_bit 8 (pack32 r g b a) = word_of_int r
       \<and> take_bit 8 (drop_bit 8 (pack32 r g b a)) = word_of_int g
       \<and> take_bit 8 (drop_bit 16 (pack32 r g b a)) = word_of_int b
       \<and> drop_bit 24 (pack32 r g b a) = word_of_int a"
proof -
  have hi: "\<And>v n. 0 \<le> v \<Longrightarrow> v \<le> 255 \<Longrightarrow> bit (v::int) n \<Longrightarrow> n < 8"
    using byte_bit by (metis not_le)
  have red: "take_bit 8 (pack32 r g b a) = word_of_int r"
  proof (rule bit_word_eqI)
    fix n :: nat
    assume "n < LENGTH(32)"
    then show "bit (take_bit 8 (pack32 r g b a)) n = bit (word_of_int r :: int32) n"
      using hi [of r n] assms
      by (auto simp add: pack32_def bit_take_bit_iff bit_or_iff bit_push_bit_iff
          bit_word_of_int_iff)
  qed
  have green: "take_bit 8 (drop_bit 8 (pack32 r g b a)) = word_of_int g"
  proof (rule bit_word_eqI)
    fix n :: nat
    assume "n < LENGTH(32)"
    then show "bit (take_bit 8 (drop_bit 8 (pack32 r g b a))) n = bit (word_of_int g :: int32) n"
      using hi [of g n] byte_bit [of r "n + 8"] assms
      by (auto simp add: pack32_def bit_take_bit_iff bit_drop_bit_eq bit_or_iff bit_push_bit_iff
          bit_word_of_int_iff add.commute)
  qed
  have blue: "take_bit 8 (drop_bit 16 (pack32 r g b a)) = word_of_int b"
  proof (rule bit_word_eqI)
    fix n :: nat
    assume "n < LENGTH(32)"
    then show "bit (take_bit 8 (drop_bit 16 (pack32 r g b a))) n = bit (word_of_int b :: int32) n"
      using hi [of b n] byte_bit [of r "n + 16"] byte_bit [of g "n + 8"] assms
      by (auto simp add: pack32_def bit_take_bit_iff bit_drop_bit_eq bit_or_iff bit_push_bit_iff
          bit_word_of_int_iff add.commute)
  qed
  have alpha: "drop_bit 24 (pack32 r g b a) = word_of_int a"
  proof (rule bit_word_eqI)
    fix n :: nat
    assume "n < LENGTH(32)"
    then show "bit (drop_bit 24 (pack32 r g b a)) n = bit (word_of_int a :: int32) n"
      using hi [of a n] byte_bit [of r "n + 24"] byte_bit [of g "n + 16"] byte_bit [of b "n + 8"]
        assms
      by (auto simp add: pack32_def bit_drop_bit_eq bit_or_iff bit_push_bit_iff
          bit_word_of_int_iff add.commute)
  qed
  show ?thesis using red green blue alpha by simp
qed

subsection \<open>Where a write lands, and what a read does\<close>

lemma index_in_grid:
  assumes "0 \<le> (x::int)" "x < w" "0 \<le> (y::int)" "y < h"
  shows "0 \<le> y * w + x \<and> y * w + x < w * h"
proof -
  have w: "0 \<le> w" using assms(1,2) by linarith
  have "y + 1 \<le> h" using assms(4) by linarith
  then have "(y + 1) * w \<le> h * w" using w by (rule mult_right_mono)
  then have "y * w + x < w * h" using assms(2) by (simp add: algebra_simps)
  moreover have "0 \<le> y * w" using assms(3) w by simp
  ultimately show ?thesis using assms(1) by simp
qed

text \<open>
  Once \<^verbatim>\<open>this.pixels\<close> is the 32-bit view of a buffer with one entry per pixel,
  \<^verbatim>\<open>setPixel32\<close> at a coordinate of the grid stores the packed value at \<open>y * width + x\<close>.
\<close>

lemma setPixel32_stores_packed:
  assumes "0 \<le> x" "x < width s" "0 \<le> y" "y < height s"
    and "pixels s = Int32Array" and "length (imageData s) = nat (width s * height s)"
  shows "imageData (snd (setPixel32 x y r g b a s)) ! nat (y * width s + x) = pack32 r g b a"
proof -
  have i: "0 \<le> y * width s + x \<and> y * width s + x < width s * height s"
    using assms(1-4) by (rule index_in_grid)
  then have "nat (y * width s + x) < length (imageData s)"
    using assms(6) by simp
  then show ?thesis
    using assms i by (simp add: setPixel32_def boundsCheck_def pixelIndex_def assign_index_def)
qed

text \<open>
  No call assigns \<^verbatim>\<open>this.data32\<close>, so in every state reached from the constructor it is
  \<^verbatim>\<open>undefined\<close>, and \<^verbatim>\<open>getPixel\<close> and \<^verbatim>\<open>getPixel32\<close> throw at every coordinate their guard
  accepts.
\<close>

lemma exec_data32: "data32 (bmd (snd (exec E c w))) = data32 (bmd w)"
  by (cases c)
    (simp_all add: method_defs lift_defs throwing_snd render_frame setPixel32_data32 Let_def
      split: sum.split)

lemma run_data32: "data32 (bmd (run E cs (new_world E g wa ha))) = None"
proof (induction cs rule: rev_induct)
  case Nil
  show ?case by (simp add: run_def new_world_def BitmapData_def Let_def)
next
  case (snoc c cs)
  then show ?case by (simp add: run_snoc exec_data32 del: exec.simps)
qed

lemma getPixel32_reachable_throws:
  assumes "boundsCheck (bmd (run E cs (new_world E g wa ha))) x y"
  shows "getPixel32 x y (bmd (run E cs (new_world E g wa ha))) = Inl TypeError
       \<and> getPixel x y (bmd (run E cs (new_world E g wa ha))) = Inl TypeError"
  using assms by (simp add: getPixel32_def getPixel_def read_data32_def run_data32)

subsection \<open>The dirty flag along a sequence of calls\<close>

lemma exec_dirty:
  "dirty (bmd (snd (exec E c w))) = (c \<noteq> Op_render \<and> (dirty (bmd w) \<or> marksDirty (bmd w) c))"
  by (cases c)
    (simp_all add: marksDirty_def method_defs lift_defs throwing_snd render_def setPixel32_dirty
      Let_def split: sum.split)

lemma exec_dims:
  "width (bmd (snd (exec E c w))) = width (bmd w)
   \<and> height (bmd (snd (exec E c w))) = height (bmd w)"
  by (cases c)
    (simp_all add: method_defs lift_defs throwing_snd render_frame setPixel32_dims Let_def
      split: sum.split)

lemma marksDirty_dims:
  "width s = width s' \<Longrightarrow> height s = height s' \<Longrightarrow> marksDirty s c = marksDirty s' c"
  by (cases c) (simp_all add: marksDirty_def boundsCheck_def)

lemma run_dims:
  "width (bmd (run E cs w)) = width (bmd w) \<and> height (bmd (run E cs w)) = height (bmd w)"
proof (induction cs rule: rev_induct)
  case Nil
  show ?case by (simp add: run_def)
next
  case (snoc c cs)
  then show ?case by (simp add: run_snoc exec_dims del: exec.simps)
qed

lemma run_dirty:
  "dirty (bmd (run E cs w)) =
     (list_ex (marksDirty (bmd w)) (since_last_render cs)
      \<or> (dirty (bmd w) \<and> Op_render \<notin> set cs))"
proof (induction cs rule: rev_induct)
  case Nil
  show ?case by (simp add: run_def since_last_render_def)
next
  case (snoc c cs)
  have m: "marksDirty (bmd (run E cs w)) c = marksDirty (bmd w) c"
    by (rule marksDirty_dims) (simp_all add: run_dims)
  show ?case
  proof (cases "c = Op_render")
    case True
    then show ?thesis
      by (simp add: run_snoc exec_dirty since_last_render_def del: exec.simps)
  next
    case False
    then show ?thesis
      using snoc.IH m
      by (auto simp add: run_snoc exec_dirty since_last_render_def simp del: exec.simps)
  qed
qed

lemma exec_writes_marks:
  "writesBuffer E c w \<Longrightarrow> c \<noteq> Op_render \<and> (dirty (bmd w) \<or> marksDirty (bmd w) c)"
  by (cases c)
    (auto simp add: writesBuffer_def issued_def is_refreshBuffer_def marksDirty_def paints_def
      method_defs lift_defs throwing_snd render_frame setPixel32_skipped Let_def
      split: sum.splits if_splits)

section \<open>Pixel access: writing and reading back\<close>

text \<open>
  Claim C1 (setPixel32 followed by getPixel32 returns the packed value), evaluated on the
  code. On the 4 by 4 surface, after \<^verbatim>\<open>refreshBuffer()\<close> has made \<^verbatim>\<open>this.pixels\<close> a 32-bit
  view, \<^verbatim>\<open>setPixel32(1, 2, 10, 20, 30, 40)\<close> stores the packed value \<open>0x281E140A\<close> at index
  \<open>2 * 4 + 1 = 9\<close> of the buffer, but \<^verbatim>\<open>getPixel32(1, 2)\<close> does not return it: it reads
  \<^verbatim>\<open>this.data32\<close>, which is \<^verbatim>\<open>undefined\<close>, and throws a TypeError.
\<close>

theorem getPixel32_after_setPixel32_throws:
  "getPixel32 1 2 (snd (setPixel32 1 2 10 20 30 40 example_refreshed)) = Inl TypeError
   \<and> imageData (snd (setPixel32 1 2 10 20 30 40 example_refreshed)) ! 9 = pack32 10 20 30 40
   \<and> pack32 10 20 30 40 = 0x281E140A"
  by (simp add: getPixel32_def setPixel32_def refreshBuffer_def example_defs boundsCheck_def
      pixelIndex_def read_data32_def assign_index_def pack32_def replicate16 Let_def)

text \<open>
  Claim C7 (setPixel is setPixel32 with alpha 255, and getPixel32 afterwards yields alpha
  byte 0xFF), evaluated on the code. On the same surface \<^verbatim>\<open>setPixel(1, 2, 10, 20, 30)\<close> gives
  the state and the return value of \<^verbatim>\<open>setPixel32(1, 2, 10, 20, 30, 255)\<close> and stores
  \<open>0xFF1E140A\<close>, whose top byte is \<open>0xFF\<close>, at index 9; the following \<^verbatim>\<open>getPixel32(1, 2)\<close>
  yields no value: it throws a TypeError.
\<close>

theorem getPixel32_after_setPixel_throws:
  "setPixel 1 2 10 20 30 example_refreshed = setPixel32 1 2 10 20 30 255 example_refreshed
   \<and> imageData (snd (setPixel 1 2 10 20 30 example_refreshed)) ! 9 = 0xFF1E140A
   \<and> drop_bit 24 (0xFF1E140A :: int32) = 0xFF
   \<and> getPixel32 1 2 (snd (setPixel 1 2 10 20 30 example_refreshed)) = Inl TypeError"
  by (simp add: setPixel_def getPixel32_def setPixel32_def refreshBuffer_def example_defs
      boundsCheck_def pixelIndex_def read_data32_def assign_index_def pack32_def replicate16
      Let_def drop_bit_eq_div)

text \<open>
  Claim C4: at a coordinate that the guard of \<^verbatim>\<open>setPixel32\<close> rejects (a negative \<open>x\<close> or \<open>y\<close>,
  \<open>x\<close> above the width, \<open>y\<close> above the height) the call does nothing: it returns normally
  (\<^verbatim>\<open>undefined\<close>, no exception), and the whole state, so the pixel buffer and the dirty
  flag, is what it was.
\<close>

theorem setPixel32_outside_guard_is_noop:
  assumes "x < 0 \<or> width (bmd w) < x \<or> y < 0 \<or> height (bmd w) < y"
  shows "setPixel32 x y r g b a (bmd w) = (Undefined, bmd w)
       \<and> exec E (Op_setPixel32 x y r g b a) w = (Inr Undefined, w)"
  using assms by (auto simp add: setPixel32_def boundsCheck_def on_this_def)

theorem setPixel32_outside_guard_is_noop_witness:
  "(5 < (0::int) \<or> width (bmd example_world) < 5 \<or> 0 < (0::int) \<or> height (bmd example_world) < 0)
   \<and> setPixel32 5 0 1 2 3 4 (bmd example_world) = (Undefined, bmd example_world)
   \<and> exec example_env (Op_setPixel32 5 0 1 2 3 4) example_world = (Inr Undefined, example_world)"
proof -
  have h: "5 < (0::int) \<or> width (bmd example_world) < 5 \<or> 0 < (0::int)
      \<or> height (bmd example_world) < 0"
    by (simp add: example_defs Let_def)
  show ?thesis
    using h setPixel32_outside_guard_is_noop [OF h, of 1 2 3 4 example_env] by simp
qed

section \<open>The inclusive bounds check\<close>

text \<open>
  Claim C5: the guard of \<^verbatim>\<open>setPixel32\<close>, \<^verbatim>\<open>getPixel\<close> and \<^verbatim>\<open>getPixel32\<close> compares with
  \<open>\<le> width\<close> and \<open>\<le> height\<close>, so it accepts coordinates whose index \<open>y * width + x\<close> is not
  below \<open>width * height\<close>. On every surface of non-negative width and positive height the
  guard accepts \<open>x = width, y = height - 1\<close>, whose index is exactly \<open>width * height\<close>, and
  \<open>x = width, y = height\<close>, whose index is at least that; at the first of them
  \<^verbatim>\<open>setPixel32\<close> runs its body (the surface is dirty afterwards) and \<^verbatim>\<open>getPixel\<close> and
  \<^verbatim>\<open>getPixel32\<close> perform their read at index \<open>width * height\<close>.
\<close>

theorem inclusive_bounds_accept_index_past_buffer:
  assumes "0 \<le> width s" and "0 < height s"
  shows "boundsCheck s (width s) (height s - 1)
       \<and> pixelIndex s (width s) (height s - 1) = width s * height s
       \<and> boundsCheck s (width s) (height s)
       \<and> pixelIndex s (width s) (height s) \<ge> width s * height s
       \<and> dirty (snd (setPixel32 (width s) (height s - 1) r g b a s))
       \<and> getPixel (width s) (height s - 1) s = read_data32 (data32 s) (width s * height s)
       \<and> getPixel32 (width s) (height s - 1) s = read_data32 (data32 s) (width s * height s)"
  using assms
  by (simp add: boundsCheck_def pixelIndex_def setPixel32_def getPixel_def getPixel32_def
      algebra_simps split: prod.split)

theorem inclusive_bounds_accept_index_past_buffer_witness:
  "boundsCheck example_surface 4 3 \<and> pixelIndex example_surface 4 3 = 16
   \<and> boundsCheck example_surface 4 4 \<and> pixelIndex example_surface 4 4 \<ge> 16
   \<and> dirty (snd (setPixel32 4 3 1 2 3 4 example_surface))
   \<and> getPixel 4 3 example_surface = Inl TypeError
   \<and> getPixel32 4 3 example_surface = Inl TypeError"
  using inclusive_bounds_accept_index_past_buffer [of example_surface 1 2 3 4]
  by (simp add: example_defs read_data32_def Let_def)

section \<open>The dirty flag\<close>

text \<open>
  Claim C2 as stated (dirty exactly when the buffer has been mutated since the last
  render; no call that leaves the buffer unchanged sets it) fails: on the new 4 by 4
  surface \<^verbatim>\<open>save()\<close>, which pushes the drawing state of the context, leaves the packed
  pixels and \<^verbatim>\<open>this.pixels\<close> as they were and issues no painting command, and the surface is
  dirty afterwards.
\<close>

theorem save_sets_dirty_without_touching_buffer:
  "\<not> dirty (bmd example_world)
   \<and> dirty (bmd (snd (exec example_env Op_save example_world)))
   \<and> imageData (bmd (snd (exec example_env Op_save example_world))) = imageData (bmd example_world)
   \<and> pixels (bmd (snd (exec example_env Op_save example_world))) = pixels (bmd example_world)
   \<and> issued example_env Op_save example_world = [Ctx_save]
   \<and> \<not> writesBuffer example_env Op_save example_world"
  by (simp add: writesBuffer_def issued_def is_refreshBuffer_def paints_def save_def emit_def
      on_this_def example_defs Let_def)

text \<open>
  Claim C2 as amended. The flag is false after construction. A call leaves the surface
  dirty exactly when it is not \<^verbatim>\<open>render()\<close> and either the surface was dirty before or the
  call is one of those that set the flag (\<open>marksDirty\<close>: \<^verbatim>\<open>clear\<close>, \<^verbatim>\<open>setPixel32\<close> and
  \<^verbatim>\<open>setPixel\<close> at a coordinate their guard accepts, and the facade methods \<^verbatim>\<open>arc\<close>, \<^verbatim>\<open>arcTo\<close>,
  \<^verbatim>\<open>bezierCurveTo\<close>, \<^verbatim>\<open>circle\<close>, \<^verbatim>\<open>clearRect\<close>, \<^verbatim>\<open>clip\<close>, \<^verbatim>\<open>closePath\<close>, \<^verbatim>\<open>ellipse\<close>, \<^verbatim>\<open>fill\<close>,
  \<^verbatim>\<open>fillRect\<close>, \<^verbatim>\<open>lineTo\<close>, \<^verbatim>\<open>quadraticCurveTo\<close>, \<^verbatim>\<open>rect\<close>, \<^verbatim>\<open>restore\<close>, \<^verbatim>\<open>rotate\<close>, \<^verbatim>\<open>save\<close>, \<^verbatim>\<open>scale\<close>,
  \<^verbatim>\<open>scrollPathIntoView\<close>, \<^verbatim>\<open>stroke\<close>, \<^verbatim>\<open>strokeRect\<close>), whether or not it changes a pixel; so
  only \<^verbatim>\<open>render()\<close> clears the flag. Every call that writes the buffer leaves the surface
  dirty. After any sequence of calls on a new surface the flag is true exactly when a
  call that sets it has been made since the last \<^verbatim>\<open>render()\<close>.
\<close>

theorem dirty_flag_follows_marking_calls:
  "dirty (bmd (new_world E g wa ha)) = False
   \<and> dirty (bmd (snd (exec E c w))) = (c \<noteq> Op_render \<and> (dirty (bmd w) \<or> marksDirty (bmd w) c))
   \<and> (writesBuffer E c w \<longrightarrow> dirty (bmd (snd (exec E c w))))
   \<and> dirty (bmd (run E cs (new_world E g wa ha))) =
       list_ex (marksDirty (BitmapData E g wa ha)) (since_last_render cs)"
proof -
  have "writesBuffer E c w \<longrightarrow> dirty (bmd (snd (exec E c w)))"
    using exec_writes_marks [of E c w] exec_dirty [of E c w] by blast
  moreover have "dirty (bmd (run E cs (new_world E g wa ha))) =
       list_ex (marksDirty (BitmapData E g wa ha)) (since_last_render cs)"
    by (simp add: run_dirty) (simp add: new_world_def BitmapData_def Let_def)
  ultimately show ?thesis
    by (simp add: exec_dirty del: exec.simps) (simp add: new_world_def BitmapData_def Let_def)
qed

theorem dirty_flag_follows_marking_calls_witness:
  "writesBuffer example_env Op_fill example_world
   \<and> dirty (bmd (snd (exec example_env Op_fill example_world)))
   \<and> \<not> dirty (bmd (run example_env [Op_fill, Op_render, Op_fillStyle (Color ''red'')] example_world))
   \<and> dirty (bmd (run example_env [Op_fill, Op_render, Op_lineTo 1 1] example_world))"
proof -
  have h: "writesBuffer example_env Op_fill example_world"
    by (simp add: writesBuffer_def issued_def paints_def fill_def emit_def on_this_def
        example_defs Let_def)
  have r: "since_last_render [Op_fill, Op_render, Op_fillStyle (Color ''red'')]
      = [Op_fillStyle (Color ''red'')]"
    by (simp add: since_last_render_def)
  have l: "since_last_render [Op_fill, Op_render, Op_lineTo 1 1] = [Op_lineTo 1 1]"
    by (simp add: since_last_render_def)
  show ?thesis
    using h
      dirty_flag_follows_marking_calls [of example_env example_game "Some 4" "Some 4" Op_fill
        example_world "[Op_fill, Op_render, Op_fillStyle (Color ''red'')]"]
      dirty_flag_follows_marking_calls [of example_env example_game "Some 4" "Some 4" Op_fill
        example_world "[Op_fill, Op_render, Op_lineTo 1 1]"]
    by (simp add: r l marksDirty_def example_world_def del: exec.simps)
qed

section \<open>The synchronisation step\<close>

text \<open>
  Claim C3 as stated (when dirty, render notifies the upload queue) fails: in a game whose
  render type is not \<^verbatim>\<open>Phaser.WEBGL\<close>, \<^verbatim>\<open>render()\<close> on a dirty surface clears the flag and
  pushes nothing to \<^verbatim>\<open>PIXI.texturesToUpdate\<close>.
\<close>

theorem render_skips_upload_outside_webgl:
  "dirty (bmd (snd (exec example_env Op_fill example_canvas_world)))
   \<and> texturesToUpdate (snd (render example_env (snd (exec example_env Op_fill example_canvas_world))))
       = texturesToUpdate (snd (exec example_env Op_fill example_canvas_world))
   \<and> texturesToUpdate (snd (render example_env (snd (exec example_env Op_fill example_canvas_world))))
       = []
   \<and> \<not> dirty (bmd (snd (render example_env (snd (exec example_env Op_fill example_canvas_world)))))"
  by (simp add: render_def fill_def emit_def on_this_def example_defs Let_def)

text \<open>
  Claim C3 as amended. \<^verbatim>\<open>render()\<close> returns nothing and changes nothing when the surface is
  not dirty. When it is dirty, it clears the flag and, only if \<^verbatim>\<open>game.renderType\<close> equals
  \<^verbatim>\<open>Phaser.WEBGL\<close>, appends the base texture to \<^verbatim>\<open>PIXI.texturesToUpdate\<close>. The surface is never
  dirty after it, a second call made right after the first changes nothing, and two calls
  in a row append at most one entry.
\<close>

theorem render_synchronisation:
  "render E w =
     (Undefined,
      if dirty (bmd w)
      then w\<lparr>bmd := (bmd w)\<lparr>dirty := False\<rparr>,
             texturesToUpdate :=
               (if renderType (game (bmd w)) = WEBGL E
                then texturesToUpdate w @ [baseTexture (bmd w)] else texturesToUpdate w)\<rparr>
      else w)
   \<and> \<not> dirty (bmd (snd (render E w)))
   \<and> render E (snd (render E w)) = (Undefined, snd (render E w))
   \<and> length (texturesToUpdate (snd (render E (snd (render E w)))))
       \<le> length (texturesToUpdate w) + 1"
  by (simp add: render_def)

section \<open>Return values\<close>

text \<open>
  Claim C6 as stated (every buffer-mutating operation returns the surface) fails:
  \<^verbatim>\<open>clear()\<close> issues \<^verbatim>\<open>clearRect\<close> over the whole surface and sets the flag, and
  \<^verbatim>\<open>setPixel32\<close> writes a pixel, and both return \<^verbatim>\<open>undefined\<close>.
\<close>

theorem clear_and_setPixel32_return_undefined:
  "fst (exec example_env Op_clear example_world) = Inr Undefined
   \<and> fst (exec example_env Op_clear example_world) \<noteq> Inr This
   \<and> issued example_env Op_clear example_world = [Ctx_clearRect 0 0 4 4]
   \<and> dirty (bmd (snd (exec example_env Op_clear example_world)))
   \<and> fst (setPixel32 1 2 10 20 30 40 example_refreshed) = Undefined
   \<and> imageData (snd (setPixel32 1 2 10 20 30 40 example_refreshed)) ! 9 = 0x281E140A"
  by (simp add: issued_def clear_def emit_def on_this_def setPixel32_def refreshBuffer_def
      boundsCheck_def pixelIndex_def assign_index_def pack32_def replicate16 example_defs
      Let_def)

text \<open>
  Claim C6 as amended. A call returns the surface itself exactly when its method is one of
  the drawing facade that ends with \<^verbatim>\<open>return this\<close> (\<open>chainable\<close>: every method but
  \<^verbatim>\<open>add\<close>, \<^verbatim>\<open>addTo\<close>, \<^verbatim>\<open>clear\<close>, \<^verbatim>\<open>refreshBuffer\<close>, \<^verbatim>\<open>setPixel32\<close>, \<^verbatim>\<open>setPixel\<close>, \<^verbatim>\<open>getPixel\<close>,
  \<^verbatim>\<open>getPixel32\<close>, \<^verbatim>\<open>getPixels\<close>, \<^verbatim>\<open>createLinearGradient\<close>, \<^verbatim>\<open>createRadialGradient\<close> and \<^verbatim>\<open>render\<close>)
  and no call it delegates to throws (\<open>accepted\<close>). A chainable method that does not return
  the surface throws: the exception of the delegated call reaches the caller. So \<^verbatim>\<open>arc\<close>
  with a negative radius throws an IndexSizeError, \<^verbatim>\<open>scrollPathIntoView\<close> throws a TypeError
  on a context without that method, and \<^verbatim>\<open>beginLinearGradientFill\<close> with two colours and one
  ratio throws at its second stop, or at its first when the first colour does not parse.
  The buffer-mutating methods \<^verbatim>\<open>clear\<close>, \<^verbatim>\<open>setPixel32\<close> and \<^verbatim>\<open>setPixel\<close> return \<^verbatim>\<open>undefined\<close>.
\<close>

theorem facade_methods_return_this:
  "(fst (exec E c w) = Inr This) = (chainable c \<and> accepted E c)
   \<and> (chainable c \<and> isl (fst (exec E c w))) = (chainable c \<and> \<not> accepted E c)
   \<and> fst (exec E (Op_arc x y radius sa ea ac) w)
       = (if radius < 0 then Inl IndexSizeError else Inr This)
   \<and> fst (exec E Op_scrollPathIntoView w)
       = (if has_scrollPathIntoView E then Inr This else Inl TypeError)
   \<and> fst (exec E (Op_beginLinearGradientFill [c1, c2] [0] x0 y0 x1 y1) w)
       = (if parses_color E c1 then Inl TypeError else Inl SyntaxError)
   \<and> fst (clear s) = Undefined
   \<and> fst (setPixel32 px py r g b a s) = Undefined
   \<and> fst (setPixel px py r g b s) = Undefined
   \<and> fst (exec E Op_clear w) = Inr Undefined
   \<and> fst (exec E (Op_setPixel32 px py r g b a) w) = Inr Undefined
   \<and> fst (exec E (Op_setPixel px py r g b) w) = Inr Undefined"
proof -
  have returns: "(fst (exec E c w) = Inr This) = (chainable c \<and> accepted E c)"
    by (cases c)
      (auto simp add: chainable_def accepted_def method_defs lift_defs throwing_fst
        ctx_throws_def stops_result_This render_def setPixel32_fst getPixel_def getPixel32_def
        read_data32_def Let_def split: option.split)
  have throws: "(chainable c \<and> isl (fst (exec E c w))) = (chainable c \<and> \<not> accepted E c)"
    by (cases c)
      (auto simp add: chainable_def accepted_def method_defs lift_defs throwing_fst
        ctx_throws_def stops_result_isl Let_def split: option.split)
  have gradient: "fst (exec E (Op_beginLinearGradientFill [c1, c2] [0] x0 y0 x1 y1) w)
       = (if parses_color E c1 then Inl TypeError else Inl SyntaxError)"
    by (simp add: on_this_throwing_def gradient_helpers_fst addColorStop_def)
  show ?thesis
    using returns throws gradient
    by (simp add: on_this_def on_this_throwing_def arc_def scrollPathIntoView_def invoke_fst
        ctx_throws_def clear_def setPixel_def setPixel32_fst split: option.split)
qed

section \<open>Composite helpers and style setters\<close>

text \<open>
  Claim C8: \<^verbatim>\<open>circle(x, y, r)\<close> gives the state and the outcome of
  \<^verbatim>\<open>arc(x, y, r, 0, 2 * pi, false)\<close>, and of the same call with the last argument omitted:
  it issues the one command \<^verbatim>\<open>arc(x, y, r, 0, 2 * pi, false)\<close> to the context and leaves the
  surface dirty; like that call it returns the surface, or throws what the context throws
  for a negative radius.
\<close>

theorem circle_is_full_arc:
  "circle E x y r s = arc E x y r 0 (2 * pi) (Some False) s
   \<and> circle E x y r s = arc E x y r 0 (2 * pi) None s
   \<and> ctx (snd (circle E x y r s)) = ctx s @ [Ctx_arc x y r 0 (2 * pi) False]
   \<and> dirty (snd (circle E x y r s))
   \<and> fst (circle E x y r s) = (if r < 0 then Inl IndexSizeError else Inr This)"
  by (simp add: circle_def arc_def invoke_def ctx_throws_def emit_def mult.commute)

text \<open>
  Claim C9: \<^verbatim>\<open>fillStyle\<close>, \<^verbatim>\<open>lineWidth\<close> and \<^verbatim>\<open>font\<close> leave the dirty flag, the packed pixels and
  \<^verbatim>\<open>this.pixels\<close> as they were, in every state; each only assigns one property of the
  context.
\<close>

theorem style_setters_leave_dirty_and_buffer:
  "dirty (snd (fillStyle c s)) = dirty s
   \<and> imageData (snd (fillStyle c s)) = imageData s
   \<and> pixels (snd (fillStyle c s)) = pixels s
   \<and> ctx (snd (fillStyle c s)) = ctx s @ [Ctx_set_fillStyle c]
   \<and> dirty (snd (lineWidth n s)) = dirty s
   \<and> imageData (snd (lineWidth n s)) = imageData s
   \<and> pixels (snd (lineWidth n s)) = pixels s
   \<and> ctx (snd (lineWidth n s)) = ctx s @ [Ctx_set_lineWidth n]
   \<and> dirty (snd (font f s)) = dirty s
   \<and> imageData (snd (font f s)) = imageData s
   \<and> pixels (snd (font f s)) = pixels s
   \<and> ctx (snd (font f s)) = ctx s @ [Ctx_set_font f]"
  by (simp add: fillStyle_def lineWidth_def font_def emit_def)

section \<open>Construction\<close>

text \<open>
  Claim C10: a dimension omitted from the constructor call is 256. With the width omitted
  the surface, its canvas and its texture frame are 256 wide, with the height omitted they
  are 256 high, and the pixel buffer fetched from the new canvas has one entry per pixel
  of the defaulted size; a dimension that is given is kept.
\<close>

theorem constructor_defaults_256:
  "width (BitmapData E g None h) = 256
   \<and> canvas_width (canvas (BitmapData E g None h)) = 256
   \<and> frame_width (textureFrame (BitmapData E g None h)) = 256
   \<and> height (BitmapData E g w None) = 256
   \<and> canvas_height (canvas (BitmapData E g w None)) = 256
   \<and> frame_height (textureFrame (BitmapData E g w None)) = 256
   \<and> imageData (BitmapData E g None (Some hv)) = replicate (nat (256 * hv)) 0
   \<and> imageData (BitmapData E g (Some wv) None) = replicate (nat (wv * 256)) 0
   \<and> imageData (BitmapData E g None None) = replicate 65536 0
   \<and> ctx (BitmapData E g None None) = [Ctx_getImageData 0 0 256 256]
   \<and> ctx (BitmapData E g None (Some hv)) = [Ctx_getImageData 0 0 256 (of_int hv)]
   \<and> ctx (BitmapData E g (Some wv) None) = [Ctx_getImageData 0 0 (of_int wv) 256]
   \<and> width (BitmapData E g (Some wv) h) = wv
   \<and> height (BitmapData E g w (Some hv)) = hv"
  by (simp add: BitmapData_def Let_def)

end
